theory Spec2Isabelle
  imports Complex_Main "HOL-Library.Sublist" "HOL-Library.AList"
begin

section \<open>The client-side data-access layer (src/lib/api.ts)\<close>

text \<open>
  The module builds one axios instance, installs a request and a response interceptor on
  it, and exports thirteen operations; each of them awaits one call on the instance inside
  \<^verbatim>\<open>try\<close> and returns a fabricated value from \<^verbatim>\<open>catch\<close>.

  The embedding makes the effects explicit. The mutable part of the browser
  (\<^verbatim>\<open>localStorage\<close> and the assignments to \<^verbatim>\<open>window.location.href\<close>) is a record that is
  passed through; everything the code reads from outside (the environment variable, the
  answer of the transport, the readings of \<^verbatim>\<open>Date.now()\<close>, the outcome of
  \<^verbatim>\<open>Math.random()\<close>) is a field of an environment record. A rejected promise or a
  thrown exception is \<open>Inl\<close>, a resolved promise is \<open>Inr\<close>. Each operation is treated as
  one atomic step: interleavings of several pending operations are not modelled.
\<close>

subsection \<open>JavaScript values\<close>

text \<open>
  Objects are association lists in insertion order, with at most one entry per key when
  they are built by \<open>object\<close>. Strings are lists of characters; the code only concatenates
  them and searches them for a substring, which does not depend on the width of a
  character. Numbers are reals that stand for doubles: the subtractions are on integer
  millisecond counts far below \<open>2^53\<close>, where they are exact, and the product inside
  \<^verbatim>\<open>Math.floor\<close> is rounded to a double.
\<close>

datatype json =
    JUndefined
  | JNull
  | JBool bool
  | JNum real
  | JStr string
  | JArr "json list"
  | JObj "(string \<times> json) list"

text \<open>An object literal defines its properties from left to right; a later property
  with the same key replaces the value of the earlier one.\<close>

definition object :: "(string \<times> json) list \<Rightarrow> json" where
  "object props = JObj (fold (\<lambda>(k, v). AList.update k v) props [])"

text \<open>Property read \<^verbatim>\<open>o.k\<close> (or \<^verbatim>\<open>o?.k\<close>): \<open>None\<close> is JavaScript's \<^verbatim>\<open>undefined\<close>.\<close>

fun get_prop :: "json \<Rightarrow> string \<Rightarrow> json option" where
  "get_prop (JObj kvs) k = map_of kvs k"
| "get_prop _ k = None"

text \<open>Decimal rendering of an integer-valued number, as string concatenation does it.\<close>

fun digits :: "nat \<Rightarrow> string" where
  "digits n =
     (if n < 10 then [''0123456789'' ! n]
      else digits (n div 10) @ [''0123456789'' ! (n mod 10)])"

declare digits.simps [simp del]

definition Number_toString :: "int \<Rightarrow> string" where
  "Number_toString i = (if i < 0 then CHR ''-'' # digits (nat (- i)) else digits (nat i))"

text \<open>The own enumerable properties that \<^verbatim>\<open>...v\<close> copies into an object literal:
  those of an object, the indexed elements of an array or of a string, nothing for
  \<^verbatim>\<open>null\<close>, \<^verbatim>\<open>undefined\<close>, a number or a boolean.\<close>

definition indexed :: "json list \<Rightarrow> (string \<times> json) list" where
  "indexed xs = zip (map (\<lambda>i. Number_toString (int i)) [0..<length xs]) xs"

fun spread :: "json \<Rightarrow> (string \<times> json) list" where
  "spread (JObj kvs) = kvs"
| "spread (JArr xs) = indexed xs"
| "spread (JStr s) = indexed (map (\<lambda>c. JStr [c]) s)"
| "spread _ = []"

text \<open>\<^verbatim>\<open>String.prototype.includes\<close>: some suffix of the string starts with the
  search string.\<close>

fun String_includes :: "'a list \<Rightarrow> 'a list \<Rightarrow> bool" where
  "String_includes [] sub = (sub = [])"
| "String_includes (c # cs) sub = (prefix sub (c # cs) \<or> String_includes cs sub)"

text \<open>Array read \<^verbatim>\<open>xs[i]\<close> for an integer-valued index: \<^verbatim>\<open>undefined\<close> out of range.\<close>

definition array_get :: "real list \<Rightarrow> int \<Rightarrow> json" where
  "array_get xs i = (if 0 \<le> i \<and> i < int (length xs) then JNum (xs ! nat i) else JUndefined)"

subsection \<open>Double-precision arithmetic\<close>

text \<open>
  JavaScript numbers are IEEE 754 binary64 values and every arithmetic result is rounded
  to the nearest one, ties to the even significand. \<open>to_double\<close> is that rounding on the
  finite range (overflow to infinity is not modelled): \<open>binade x\<close> is the exponent of the
  interval \<open>[2^b, 2^(b+1))\<close> that holds \<open>\<bar>x\<bar>\<close>, not below the least normal exponent
  \<open>-1022\<close>, and \<open>ulp x\<close> the distance between neighbouring doubles there, 52 binary places
  further down.
\<close>

definition binade :: "real \<Rightarrow> int" where
  "binade x = max (- 1022) \<lfloor>log 2 \<bar>x\<bar>\<rfloor>"

definition ulp :: "real \<Rightarrow> real" where
  "ulp x = 2 powr real_of_int (binade x - 52)"

definition round_half_even :: "real \<Rightarrow> int" where
  "round_half_even y =
     (let n = \<lfloor>y\<rfloor> in
      if y - of_int n < 1 / 2 then n
      else if 1 / 2 < y - of_int n then n + 1
      else if even n then n else n + 1)"

definition to_double :: "real \<Rightarrow> real" where
  "to_double x = (if x = 0 then 0 else of_int (round_half_even (x / ulp x)) * ulp x)"

definition is_double :: "real \<Rightarrow> bool" where
  "is_double x = (to_double x = x)"

text \<open>The operator \<^verbatim>\<open>*\<close> on two numbers.\<close>

definition Number_multiply :: "real \<Rightarrow> real \<Rightarrow> real" where
  "Number_multiply x y = to_double (x * y)"

subsection \<open>Requests, responses and the environment\<close>

datatype http_verb = GET | POST | PUT

type_synonym FormData = "(string \<times> string) list"

datatype body = NoBody | JsonBody json | FormBody FormData

record request =
  http_method :: http_verb
  url :: string
  baseURL :: string
  timeout :: nat
  headers :: "string \<rightharpoonup> string"
  payload :: body

datatype response = Response (status: int) (data: json)

text \<open>The error object a rejected call carries; \<open>response\<close> is absent when no answer
  arrived.\<close>

datatype axios_error = AxiosError (code: string) (response: "response option")

text \<open>What the transport does with a request: no connection, no answer within the
  timeout, or an HTTP answer.\<close>

datatype transport_outcome = NetworkError | Timeout | Answer response

record env =
  NEXT_PUBLIC_API_BASE_URL :: "string option"
  server :: "request \<Rightarrow> transport_outcome"
  clock :: "nat \<Rightarrow> int"
  random :: real

text \<open>
  \<open>clock e k\<close> is what the \<open>k\<close>-th evaluation of \<^verbatim>\<open>Date.now()\<close> inside one \<^verbatim>\<open>catch\<close>
  block returns (counted from \<open>0\<close>, in evaluation order), \<open>random e\<close> what
  \<^verbatim>\<open>Math.random()\<close> returns there.
\<close>

record browser =
  localStorage :: "string \<rightharpoonup> string"
  navigations :: "string list"

text \<open>\<open>navigations\<close> logs every assignment to \<^verbatim>\<open>window.location.href\<close>, oldest first.\<close>

subsection \<open>The axios instance and its interceptors\<close>

definition API_BASE_URL :: "env \<Rightarrow> string" where
  "API_BASE_URL e =
     (case NEXT_PUBLIC_API_BASE_URL e of
        None \<Rightarrow> ''http://localhost:3001''
      | Some v \<Rightarrow> if v = [] then ''http://localhost:3001'' else v)"

text \<open>\<^verbatim>\<open>axios.create\<close>: the defaults every call of the instance starts from; a call
  sets method, url and data, and its own headers override the default ones.\<close>

definition api :: "env \<Rightarrow> http_verb \<Rightarrow> string \<Rightarrow> body \<Rightarrow> (string \<rightharpoonup> string) \<Rightarrow> request" where
  "api e m u d hs =
     \<lparr> http_method = m, url = u, baseURL = API_BASE_URL e @ ''/api/v1'', timeout = 10000,
       headers = [''Content-Type'' \<mapsto> ''application/json''] ++ hs, payload = d \<rparr>"

definition api_get :: "env \<Rightarrow> string \<Rightarrow> request" where
  "api_get e u = api e GET u NoBody Map.empty"

definition api_post :: "env \<Rightarrow> string \<Rightarrow> body \<Rightarrow> (string \<rightharpoonup> string) \<Rightarrow> request" where
  "api_post e u d hs = api e POST u d hs"

definition api_put :: "env \<Rightarrow> string \<Rightarrow> body \<Rightarrow> request" where
  "api_put e u d = api e PUT u d Map.empty"

text \<open>The request interceptor: \<^verbatim>\<open>if (token)\<close> is false for \<^verbatim>\<open>null\<close> (no entry) and
  for the empty string.\<close>

definition request_interceptor :: "browser \<Rightarrow> request \<Rightarrow> request" where
  "request_interceptor w config =
     (case localStorage w ''auth-token'' of
        None \<Rightarrow> config
      | Some token \<Rightarrow>
          if token \<noteq> [] then config\<lparr> headers := (headers config)(''Authorization'' \<mapsto> ''Bearer '' @ token) \<rparr>
          else config)"

text \<open>The response interceptor, success handler and error handler.\<close>

definition response_fulfilled :: "response \<Rightarrow> browser \<Rightarrow> (axios_error + response) \<times> browser" where
  "response_fulfilled r w = (Inr r, w)"

definition response_rejected :: "axios_error \<Rightarrow> browser \<Rightarrow> (axios_error + response) \<times> browser" where
  "response_rejected error w =
     (if map_option status (response error) = Some 401
      then (Inl error,
            w\<lparr> localStorage := (localStorage w)(''auth-token'' := None),
               navigations := navigations w @ [''/auth/login''] \<rparr>)
      else (Inl error, w))"

text \<open>The transport settles an answer by axios' default \<^verbatim>\<open>validateStatus\<close>: a status
  from 200 to 299 resolves, everything else rejects with the answer attached.\<close>

definition settle :: "transport_outcome \<Rightarrow> axios_error + response" where
  "settle out =
     (case out of
        NetworkError \<Rightarrow> Inl (AxiosError ''ERR_NETWORK'' None)
      | Timeout \<Rightarrow> Inl (AxiosError ''ECONNABORTED'' None)
      | Answer r \<Rightarrow>
          if 200 \<le> status r \<and> status r < 300 then Inr r
          else Inl (AxiosError ''ERR_BAD_RESPONSE'' (Some r)))"

text \<open>One call on the instance: request interceptor, transport, response interceptor.\<close>

definition wire :: "env \<Rightarrow> browser \<Rightarrow> request \<Rightarrow> transport_outcome" where
  "wire e w config = server e (request_interceptor w config)"

definition send :: "env \<Rightarrow> request \<Rightarrow> browser \<Rightarrow> (axios_error + response) \<times> browser" where
  "send e config w =
     (case settle (wire e w config) of
        Inr r \<Rightarrow> response_fulfilled r w
      | Inl error \<Rightarrow> response_rejected error w)"

subsection \<open>The operations\<close>

text \<open>The thirteen exported functions, by their arguments.\<close>

datatype operation =
    Login string string
  | Register json
  | VerifyOTP string string
  | GetProfile
  | UpdateProfile json
  | UploadKYC FormData
  | UpdateLocation real real
  | GetLocationHistory
  | SendPanicAlert json
  | GetAlerts
  | IssueDigitalID
  | GetQRCode string
  | GetSafetyScore

text \<open>The call each function awaits in its \<^verbatim>\<open>try\<close> block.\<close>

fun try_block :: "env \<Rightarrow> operation \<Rightarrow> request" where
  "try_block e (Login email password) =
     api_post e ''/auth/login''
       (JsonBody (object [(''email'', JStr email), (''password'', JStr password)])) Map.empty"
| "try_block e (Register userData) =
     api_post e ''/auth/register'' (JsonBody userData) Map.empty"
| "try_block e (VerifyOTP email otp) =
     api_post e ''/auth/verify-otp''
       (JsonBody (object [(''email'', JStr email), (''otp'', JStr otp)])) Map.empty"
| "try_block e GetProfile = api_get e ''/user/profile''"
| "try_block e (UpdateProfile profileData) =
     api_put e ''/user/profile'' (JsonBody profileData)"
| "try_block e (UploadKYC formData) =
     api_post e ''/user/kyc'' (FormBody formData)
       [''Content-Type'' \<mapsto> ''multipart/form-data'']"
| "try_block e (UpdateLocation lat lng) =
     api_post e ''/location/update''
       (JsonBody (object [(''lat'', JNum lat), (''lng'', JNum lng)])) Map.empty"
| "try_block e GetLocationHistory = api_get e ''/location/history''"
| "try_block e (SendPanicAlert alertData) =
     api_post e ''/alerts/panic'' (JsonBody alertData) Map.empty"
| "try_block e GetAlerts = api_get e ''/alerts/history''"
| "try_block e IssueDigitalID = api_post e ''/blockchain/issue-id'' NoBody Map.empty"
| "try_block e (GetQRCode digitalId) = api_get e (''/blockchain/qr/'' @ digitalId)"
| "try_block e GetSafetyScore = api_get e ''/ai/safety-score''"

definition mock_qrCode :: string where
  "mock_qrCode = ''data:image/png;base64,iVBORw0KGgoAAAANSUhEUgAAAAEAAAABCAYAAAAfFcSJAAAADUlEQVR42mP8/5+hHgAHggJ/PchI7wAAAABJRU5ErkJggg==''"

definition scores :: "real list" where
  "scores = [75, 80, 85, 90, 95]"

text \<open>\<^verbatim>\<open>scores[Math.floor(Math.random() * scores.length)]\<close>, for the outcome \<open>r\<close> of
  \<^verbatim>\<open>Math.random()\<close>.\<close>

definition pick_score :: "real \<Rightarrow> json" where
  "pick_score r = array_get scores \<lfloor>Number_multiply r (real (length scores))\<rfloor>"

text \<open>The value each function returns from its \<^verbatim>\<open>catch\<close> block.\<close>

fun catch_block :: "env \<Rightarrow> operation \<Rightarrow> json" where
  "catch_block e (Login email password) =
     object
       [(''user'', object
           [(''id'', JStr ''1''),
            (''email'', JStr email),
            (''firstName'', JStr ''Demo''),
            (''lastName'', JStr ''User''),
            (''phoneNumber'', JStr ''+91 9876543210''),
            (''role'', JStr (if String_includes email ''authority'' then ''authority'' else ''tourist''))]),
        (''token'', JStr (''mock-jwt-token-'' @ Number_toString (clock e 0)))]"
| "catch_block e (Register userData) =
     object
       [(''user'', object
           ([(''id'', JStr (''new-user-'' @ Number_toString (clock e 0)))]
            @ spread userData
            @ [(''role'', JStr ''tourist'')])),
        (''token'', JStr (''mock-jwt-token-'' @ Number_toString (clock e 1)))]"
| "catch_block e (VerifyOTP email otp) = object [(''success'', JBool True)]"
| "catch_block e GetProfile =
     object
       [(''id'', JStr ''1''),
        (''email'', JStr ''demo@example.com''),
        (''firstName'', JStr ''Demo''),
        (''lastName'', JStr ''User''),
        (''isKYCVerified'', JBool True),
        (''safetyScore'', JNum 85)]"
| "catch_block e (UpdateProfile profileData) =
     object [(''success'', JBool True), (''data'', profileData)]"
| "catch_block e (UploadKYC formData) =
     object
       [(''success'', JBool True),
        (''message'', JStr ''KYC documents uploaded successfully'')]"
| "catch_block e (UpdateLocation lat lng) = object [(''success'', JBool True)]"
| "catch_block e GetLocationHistory =
     object
       [(''locations'', JArr
           [object [(''lat'', JNum 26.1445), (''lng'', JNum 91.7362),
                    (''timestamp'', JNum (of_int (clock e 0) - 3600000))],
            object [(''lat'', JNum 26.1465), (''lng'', JNum 91.7382),
                    (''timestamp'', JNum (of_int (clock e 1) - 1800000))],
            object [(''lat'', JNum 26.1485), (''lng'', JNum 91.7402),
                    (''timestamp'', JNum (of_int (clock e 2)))]])]"
| "catch_block e (SendPanicAlert alertData) =
     object
       [(''success'', JBool True),
        (''alertId'', JStr (''panic-'' @ Number_toString (clock e 0))),
        (''message'', JStr ''Emergency alert sent successfully'')]"
| "catch_block e GetAlerts =
     object
       [(''alerts'', JArr
           [object
              [(''id'', JStr ''alert-1''),
               (''type'', JStr ''advisory''),
               (''severity'', JStr ''medium''),
               (''message'', JStr ''Weather advisory: Heavy rain expected in Guwahati area''),
               (''timestamp'', JNum (of_int (clock e 0) - 7200000)),
               (''isRead'', JBool False)],
            object
              [(''id'', JStr ''alert-2''),
               (''type'', JStr ''geo_fence''),
               (''severity'', JStr ''high''),
               (''message'', JStr ''You are approaching a restricted area''),
               (''timestamp'', JNum (of_int (clock e 1) - 3600000)),
               (''isRead'', JBool True)]])]"
| "catch_block e IssueDigitalID =
     object
       [(''qrCode'', JStr mock_qrCode),
        (''digitalId'', JStr (''DTID-'' @ Number_toString (clock e 0)))]"
| "catch_block e (GetQRCode digitalId) = object [(''qrCode'', JStr mock_qrCode)]"
| "catch_block e GetSafetyScore =
     object
       [(''safetyScore'', pick_score (random e)),
        (''factors'', JArr
           [JStr ''Location tracking active'',
            JStr ''Emergency contacts verified'',
            JStr ''Current area safety: Good'',
            JStr ''Weather conditions: Clear''])]"

text \<open>\<^verbatim>\<open>try { ... } catch (error) { ... }\<close>: the handler runs in the state the failed
  body left behind.\<close>

definition try_catch ::
  "('x + 'a) \<times> 's \<Rightarrow> ('x \<Rightarrow> 's \<Rightarrow> ('x + 'a) \<times> 's) \<Rightarrow> ('x + 'a) \<times> 's" where
  "try_catch r handler = (case r of (Inr v, s) \<Rightarrow> (Inr v, s) | (Inl x, s) \<Rightarrow> handler x s)"

text \<open>\<^verbatim>\<open>const response = await ...; return response.data\<close>.\<close>

definition return_data :: "(axios_error + response) \<times> browser \<Rightarrow> (axios_error + json) \<times> browser" where
  "return_data r = (case r of (Inr resp, s) \<Rightarrow> (Inr (data resp), s) | (Inl x, s) \<Rightarrow> (Inl x, s))"

text \<open>Every exported function has the same body around its two blocks.\<close>

definition invoke :: "env \<Rightarrow> operation \<Rightarrow> browser \<Rightarrow> (axios_error + json) \<times> browser" where
  "invoke e op w =
     try_catch (return_data (send e (try_block e op) w))
       (\<lambda>error w'. (Inr (catch_block e op), w'))"

definition authAPI_login :: "env \<Rightarrow> string \<Rightarrow> string \<Rightarrow> browser \<Rightarrow> (axios_error + json) \<times> browser" where
  "authAPI_login e email password = invoke e (Login email password)"

definition authAPI_register :: "env \<Rightarrow> json \<Rightarrow> browser \<Rightarrow> (axios_error + json) \<times> browser" where
  "authAPI_register e userData = invoke e (Register userData)"

definition authAPI_verifyOTP :: "env \<Rightarrow> string \<Rightarrow> string \<Rightarrow> browser \<Rightarrow> (axios_error + json) \<times> browser" where
  "authAPI_verifyOTP e email otp = invoke e (VerifyOTP email otp)"

definition userAPI_getProfile :: "env \<Rightarrow> browser \<Rightarrow> (axios_error + json) \<times> browser" where
  "userAPI_getProfile e = invoke e GetProfile"

definition userAPI_updateProfile :: "env \<Rightarrow> json \<Rightarrow> browser \<Rightarrow> (axios_error + json) \<times> browser" where
  "userAPI_updateProfile e profileData = invoke e (UpdateProfile profileData)"

definition userAPI_uploadKYC :: "env \<Rightarrow> FormData \<Rightarrow> browser \<Rightarrow> (axios_error + json) \<times> browser" where
  "userAPI_uploadKYC e formData = invoke e (UploadKYC formData)"

definition locationAPI_updateLocation :: "env \<Rightarrow> real \<Rightarrow> real \<Rightarrow> browser \<Rightarrow> (axios_error + json) \<times> browser" where
  "locationAPI_updateLocation e lat lng = invoke e (UpdateLocation lat lng)"

definition locationAPI_getLocationHistory :: "env \<Rightarrow> browser \<Rightarrow> (axios_error + json) \<times> browser" where
  "locationAPI_getLocationHistory e = invoke e GetLocationHistory"

definition alertAPI_sendPanicAlert :: "env \<Rightarrow> json \<Rightarrow> browser \<Rightarrow> (axios_error + json) \<times> browser" where
  "alertAPI_sendPanicAlert e alertData = invoke e (SendPanicAlert alertData)"

definition alertAPI_getAlerts :: "env \<Rightarrow> browser \<Rightarrow> (axios_error + json) \<times> browser" where
  "alertAPI_getAlerts e = invoke e GetAlerts"

definition blockchainAPI_issueDigitalID :: "env \<Rightarrow> browser \<Rightarrow> (axios_error + json) \<times> browser" where
  "blockchainAPI_issueDigitalID e = invoke e IssueDigitalID"

definition blockchainAPI_getQRCode :: "env \<Rightarrow> string \<Rightarrow> browser \<Rightarrow> (axios_error + json) \<times> browser" where
  "blockchainAPI_getQRCode e digitalId = invoke e (GetQRCode digitalId)"

definition aiAPI_getSafetyScore :: "env \<Rightarrow> browser \<Rightarrow> (axios_error + json) \<times> browser" where
  "aiAPI_getSafetyScore e = invoke e GetSafetyScore"

subsection \<open>Vocabulary of the properties\<close>

text \<open>A live call fails when there is no connection, no answer in time, or an answer
  whose status is outside 200..299; it succeeds otherwise.\<close>

definition failed :: "transport_outcome \<Rightarrow> bool" where
  "failed out =
     (case out of NetworkError \<Rightarrow> True | Timeout \<Rightarrow> True
      | Answer r \<Rightarrow> status r < 200 \<or> 300 \<le> status r)"

definition live_fails :: "env \<Rightarrow> browser \<Rightarrow> operation \<Rightarrow> bool" where
  "live_fails e w op = failed (wire e w (try_block e op))"

text \<open>The result shapes of the operation catalogue: the listed keys are present, and a
  key listed with \<^verbatim>\<open>[...]\<close> holds an array.\<close>

definition has_fields :: "string list \<Rightarrow> json \<Rightarrow> bool" where
  "has_fields ks v = list_all (\<lambda>k. get_prop v k \<noteq> None) ks"

definition has_array :: "string \<Rightarrow> json \<Rightarrow> bool" where
  "has_array k v = (case get_prop v k of Some (JArr xs) \<Rightarrow> True | _ \<Rightarrow> False)"

fun is_object :: "json \<Rightarrow> bool" where
  "is_object (JObj kvs) = True"
| "is_object _ = False"

fun response_shape :: "operation \<Rightarrow> json \<Rightarrow> bool" where
  "response_shape (Login email password) v = has_fields [''user'', ''token''] v"
| "response_shape (Register userData) v = has_fields [''user'', ''token''] v"
| "response_shape (VerifyOTP email otp) v = has_fields [''success''] v"
| "response_shape GetProfile v = is_object v"
| "response_shape (UpdateProfile profileData) v = has_fields [''success'', ''data''] v"
| "response_shape (UploadKYC formData) v = has_fields [''success'', ''message''] v"
| "response_shape (UpdateLocation lat lng) v = has_fields [''success''] v"
| "response_shape GetLocationHistory v = has_array ''locations'' v"
| "response_shape (SendPanicAlert alertData) v = has_fields [''success'', ''alertId'', ''message''] v"
| "response_shape GetAlerts v = has_array ''alerts'' v"
| "response_shape IssueDigitalID v = has_fields [''qrCode'', ''digitalId''] v"
| "response_shape (GetQRCode digitalId) v = has_fields [''qrCode''] v"
| "response_shape GetSafetyScore v = has_fields [''safetyScore'', ''factors''] v"

text \<open>Reading the role out of a \<^verbatim>\<open>{user, token}\<close> result and the timestamps out of a
  \<^verbatim>\<open>{locations}\<close> result.\<close>

definition role_of :: "json \<Rightarrow> json option" where
  "role_of v = (case get_prop v ''user'' of None \<Rightarrow> None | Some u \<Rightarrow> get_prop u ''role'')"

fun elements :: "json \<Rightarrow> json list" where
  "elements (JArr xs) = xs"
| "elements _ = []"

definition locations_of :: "json \<Rightarrow> json list" where
  "locations_of v = (case get_prop v ''locations'' of None \<Rightarrow> [] | Some a \<Rightarrow> elements a)"

definition timestamp_of :: "json \<Rightarrow> real option" where
  "timestamp_of v = (case get_prop v ''timestamp'' of Some (JNum t) \<Rightarrow> Some t | _ \<Rightarrow> None)"

text \<open>
  A generator with 53 random bits returns each of the doubles \<open>m / 2^53\<close>, \<open>m < 2^53\<close>, with
  the same probability; \<open>ways v\<close> counts the outcomes for which the score expression yields
  \<open>v\<close>, so that the probability of \<open>v\<close> is \<open>ways v / 2^53\<close>.
\<close>

definition ways :: "json \<Rightarrow> nat" where
  "ways v = card {m::nat. m < 2 ^ 53 \<and> pick_score (real m / 2 ^ 53) = v}"

subsection \<open>Example environments\<close>

text \<open>A backend that cannot be reached, one that answers every request with status 401,
  and one that answers every request with status 200 and a refusal.\<close>

definition unreachable :: env where
  "unreachable =
     \<lparr> NEXT_PUBLIC_API_BASE_URL = None, server = (\<lambda>req. NetworkError),
       clock = (\<lambda>k. 1700000000000 + int k), random = 1 / 2 \<rparr>"

definition rejecting :: env where
  "rejecting =
     \<lparr> NEXT_PUBLIC_API_BASE_URL = None,
       server = (\<lambda>req. Answer (Response 401 JNull)),
       clock = (\<lambda>k. 1700000000000), random = 0 \<rparr>"

definition refusal :: response where
  "refusal = Response 200 (JObj [(''success'', JBool False)])"

definition answering :: env where
  "answering =
     \<lparr> NEXT_PUBLIC_API_BASE_URL = Some ''https://api.example.org'',
       server = (\<lambda>req. Answer refusal),
       clock = (\<lambda>k. 1700000000000 + int k), random = 1 / 2 \<rparr>"

text \<open>A backend that cannot be reached while the wall clock is being set back by 2000
  seconds between successive readings.\<close>

definition backwards :: env where
  "backwards =
     \<lparr> NEXT_PUBLIC_API_BASE_URL = None, server = (\<lambda>req. NetworkError),
       clock = (\<lambda>k. 10000000 - 2000000 * int k), random = 1 / 2 \<rparr>"

definition signed_out :: browser where
  "signed_out = \<lparr> localStorage = Map.empty, navigations = [] \<rparr>"

definition signed_in :: browser where
  "signed_in = \<lparr> localStorage = [''auth-token'' \<mapsto> ''abc''], navigations = [] \<rparr>"

definition blank_token :: browser where
  "blank_token = \<lparr> localStorage = [''auth-token'' \<mapsto> []], navigations = [] \<rparr>"

definition authority_bob :: json where
  "authority_bob =
     JObj [(''email'', JStr ''authority.bob@example.com''), (''role'', JStr ''authority'')]"

section \<open>Properties\<close>

subsection \<open>Auxiliary facts\<close>

lemma map_of_fold_update:
  "map_of (fold (\<lambda>(k, v). AList.update k v) props acc) = map_of acc ++ map_of (rev props)"
proof (induction props arbitrary: acc)
  case Nil
  show ?case by simp
next
  case (Cons p props)
  obtain k v where p: "p = (k, v)" by (cases p)
  show ?case
    by (simp add: p Cons.IH update_conv' fun_eq_iff map_add_def split: option.splits)
qed

text \<open>Reading a property of an object literal finds the last definition of the key.\<close>

lemma get_prop_object: "get_prop (object props) k = map_of (rev props) k"
  by (simp add: object_def map_of_fold_update)

lemma is_object_object: "is_object (object props)"
  by (simp add: object_def)

text \<open>The search of \<open>String_includes\<close> finds exactly the contiguous occurrences.\<close>

lemma String_includes_sublist: "String_includes s sub = sublist sub s"
  by (induction s) (simp_all add: sublist_Cons_right)

lemma settle_failed: "failed out \<Longrightarrow> \<exists>x. settle out = Inl x"
  by (cases out) (auto simp: failed_def settle_def)

lemma send_failed:
  "failed (wire e w config) \<Longrightarrow> \<exists>x. send e config w = response_rejected x w"
  by (auto simp: send_def dest!: settle_failed)

text \<open>A failed live call always ends in the \<^verbatim>\<open>catch\<close> block, whose value is returned.\<close>

lemma invoke_failed:
  assumes "live_fails e w op"
  shows "\<exists>w'. invoke e op w = (Inr (catch_block e op), w')"
proof -
  from assms obtain x where "send e (try_block e op) w = response_rejected x w"
    unfolding live_fails_def by (blast dest: send_failed)
  then show ?thesis
    by (simp add: invoke_def try_catch_def return_data_def response_rejected_def)
qed

lemma catch_block_shape: "response_shape op (catch_block e op)"
  by (cases op) (simp_all add: has_fields_def has_array_def get_prop_object is_object_object)

lemma unreachable_fails: "live_fails unreachable w op"
  by (simp add: live_fails_def failed_def wire_def unreachable_def)

lemma rejecting_fails: "live_fails rejecting w op"
  by (simp add: live_fails_def failed_def wire_def rejecting_def)

subsection \<open>The fallback policy\<close>

text \<open>
  C1. For every operation and every failure of its live call (no connection, timeout, any
  status outside 200..299, 401 included), the function resolves: it returns the value of
  its \<^verbatim>\<open>catch\<close> block, which has the result shape of that operation, and no error
  reaches the caller.
\<close>

theorem fallback_absorbs_every_failure:
  assumes "live_fails e w op"
  shows "\<exists>v w'. invoke e op w = (Inr v, w') \<and> v = catch_block e op \<and> response_shape op v"
  using invoke_failed [OF assms] catch_block_shape by blast

theorem fallback_absorbs_every_failure_witness:
  "live_fails rejecting signed_in (Login ''bob@example.com'' ''pw'') \<and>
   (\<exists>v w'. invoke rejecting (Login ''bob@example.com'' ''pw'') signed_in = (Inr v, w') \<and>
      v = catch_block rejecting (Login ''bob@example.com'' ''pw'') \<and>
      response_shape (Login ''bob@example.com'' ''pw'') v)"
  using fallback_absorbs_every_failure [of rejecting signed_in "Login ''bob@example.com'' ''pw''"]
  by (simp add: live_fails_def failed_def wire_def rejecting_def)

text \<open>
  C2. For every operation, when the live call succeeds (the transport answers with a
  status from 200 to 299), the function returns exactly the \<^verbatim>\<open>data\<close> of that answer
  and leaves the browser state as it was.
\<close>

theorem success_returns_server_data:
  assumes "wire e w (try_block e op) = Answer r" and "200 \<le> status r" and "status r < 300"
  shows "invoke e op w = (Inr (data r), w)"
  using assms
  by (simp add: invoke_def send_def settle_def response_fulfilled_def return_data_def try_catch_def)

theorem success_returns_server_data_witness:
  "wire answering signed_in (try_block answering (VerifyOTP ''bob@example.com'' ''000000'')) = Answer refusal \<and>
   200 \<le> status refusal \<and> status refusal < 300 \<and>
   invoke answering (VerifyOTP ''bob@example.com'' ''000000'') signed_in
     = (Inr (JObj [(''success'', JBool False)]), signed_in)"
  using success_returns_server_data
    [of answering signed_in "VerifyOTP ''bob@example.com'' ''000000''" refusal]
  by (simp add: wire_def answering_def refusal_def)

subsection \<open>The request pipeline\<close>

lemma try_block_no_authorization: "headers (try_block e op) ''Authorization'' = None"
  by (cases op) (simp_all add: api_post_def api_get_def api_put_def api_def map_add_def)

text \<open>
  C3, as stated, fails: a store whose token slot holds the empty string holds a token, yet
  \<^verbatim>\<open>if (token)\<close> is false for it and no header is attached.
\<close>

theorem empty_token_sends_no_header:
  "localStorage blank_token ''auth-token'' = Some [] \<and>
   headers (request_interceptor blank_token (try_block unreachable GetProfile)) ''Authorization''
     \<noteq> Some (''Bearer '' @ [])"
  by (simp add: blank_token_def request_interceptor_def api_get_def api_def map_add_def)

text \<open>
  C3, amended. If the token slot holds a non-empty string \<open>T\<close>, the interceptor sets the
  Authorization header of the request to exactly \<open>''Bearer '' @ T\<close> and changes nothing
  else; this is the header every operation's request then carries. If the slot is absent or
  holds the empty string, the interceptor returns the request as it is, and the request of
  every operation carries no Authorization header.
\<close>

theorem request_interceptor_attaches_bearer:
  "(localStorage w ''auth-token'' = Some T \<and> T \<noteq> [] \<longrightarrow>
      request_interceptor w config
        = config\<lparr> headers := (headers config)(''Authorization'' \<mapsto> ''Bearer '' @ T) \<rparr> \<and>
      headers (request_interceptor w (try_block e op)) ''Authorization'' = Some (''Bearer '' @ T)) \<and>
   (localStorage w2 ''auth-token'' = None \<or> localStorage w2 ''auth-token'' = Some [] \<longrightarrow>
      request_interceptor w2 config = config \<and>
      headers (request_interceptor w2 (try_block e op)) ''Authorization'' = None)"
  by (auto simp: request_interceptor_def try_block_no_authorization)

theorem request_interceptor_attaches_bearer_witness:
  "localStorage signed_in ''auth-token'' = Some ''abc'' \<and> ''abc'' \<noteq> [] \<and>
   headers (request_interceptor signed_in (try_block unreachable GetProfile)) ''Authorization''
     = Some ''Bearer abc'' \<and>
   localStorage signed_out ''auth-token'' = None \<and>
   headers (request_interceptor signed_out (try_block unreachable GetProfile)) ''Authorization'' = None"
  using request_interceptor_attaches_bearer
    [of signed_in "''abc''" "try_block unreachable GetProfile" unreachable GetProfile signed_out]
  by (simp add: signed_in_def signed_out_def api_get_def api_def map_add_def)

text \<open>
  C4. For an error whose response has status 401, the error handler of the response
  interceptor re-raises the error, leaves the token slot empty (and every other slot as it
  was) and records exactly one more navigation, to \<^verbatim>\<open>/auth/login\<close>. For an error without a
  response, or with any other status, it re-raises the error and changes nothing.
\<close>

theorem response_rejected_unauthorized:
  "(response error = Some r \<and> status r = 401 \<longrightarrow>
      fst (response_rejected error w) = Inl error \<and>
      localStorage (snd (response_rejected error w)) ''auth-token'' = None \<and>
      (\<forall>k. k \<noteq> ''auth-token'' \<longrightarrow>
         localStorage (snd (response_rejected error w)) k = localStorage w k) \<and>
      navigations (snd (response_rejected error w)) = navigations w @ [''/auth/login'']) \<and>
   (response error2 = None \<or> (\<exists>r2. response error2 = Some r2 \<and> status r2 \<noteq> 401) \<longrightarrow>
      response_rejected error2 w2 = (Inl error2, w2))"
  by (auto simp: response_rejected_def)

theorem response_rejected_unauthorized_witness:
  "response (AxiosError ''ERR_BAD_RESPONSE'' (Some (Response 401 JNull))) = Some (Response 401 JNull) \<and>
   status (Response 401 JNull) = 401 \<and>
   response_rejected (AxiosError ''ERR_BAD_RESPONSE'' (Some (Response 401 JNull))) signed_in
     = (Inl (AxiosError ''ERR_BAD_RESPONSE'' (Some (Response 401 JNull))),
        \<lparr> localStorage = Map.empty, navigations = [''/auth/login''] \<rparr>) \<and>
   response (AxiosError ''ERR_NETWORK'' None) = None \<and>
   response_rejected (AxiosError ''ERR_NETWORK'' None) signed_in
     = (Inl (AxiosError ''ERR_NETWORK'' None), signed_in)"
  using response_rejected_unauthorized
    [of "AxiosError ''ERR_BAD_RESPONSE'' (Some (Response 401 JNull))" "Response 401 JNull" signed_in
        "AxiosError ''ERR_NETWORK'' None" signed_in]
  by (simp add: signed_in_def response_rejected_def)

subsection \<open>Synthesized identities\<close>

lemma login_role:
  "role_of (catch_block e (Login email password))
     = Some (JStr (if sublist ''authority'' email then ''authority'' else ''tourist''))"
  by (simp add: role_of_def get_prop_object String_includes_sublist)

text \<open>
  C5. When the live login call fails, the role of the synthesized user is \<^verbatim>\<open>authority\<close>
  exactly when the email contains the substring \<^verbatim>\<open>authority\<close>, and \<^verbatim>\<open>tourist\<close> exactly when
  it does not; for \<^verbatim>\<open>authority.bob@example.com\<close> it is \<^verbatim>\<open>authority\<close>, for
  \<^verbatim>\<open>bob@example.com\<close> it is \<^verbatim>\<open>tourist\<close>.
\<close>

theorem login_fallback_role:
  "(live_fails e w (Login email password) \<longrightarrow>
      (\<exists>v w'. authAPI_login e email password w = (Inr v, w') \<and>
         (role_of v = Some (JStr ''authority'') \<longleftrightarrow> (\<exists>ps ss. email = ps @ ''authority'' @ ss)) \<and>
         (role_of v = Some (JStr ''tourist'') \<longleftrightarrow> \<not> (\<exists>ps ss. email = ps @ ''authority'' @ ss)))) \<and>
   (live_fails e1 w1 (Login ''authority.bob@example.com'' p1) \<longrightarrow>
      (\<exists>v w'. authAPI_login e1 ''authority.bob@example.com'' p1 w1 = (Inr v, w') \<and>
         role_of v = Some (JStr ''authority''))) \<and>
   (live_fails e2 w2 (Login ''bob@example.com'' p2) \<longrightarrow>
      (\<exists>v w'. authAPI_login e2 ''bob@example.com'' p2 w2 = (Inr v, w') \<and>
         role_of v = Some (JStr ''tourist'')))"
proof (intro conjI impI)
  assume "live_fails e w (Login email password)"
  then obtain w' where run: "invoke e (Login email password) w = (Inr (catch_block e (Login email password)), w')"
    by (blast dest: invoke_failed)
  define v where "v = catch_block e (Login email password)"
  have "role_of v = Some (JStr (if sublist ''authority'' email then ''authority'' else ''tourist''))"
    unfolding v_def by (rule login_role)
  then have "(role_of v = Some (JStr ''authority'') \<longleftrightarrow> (\<exists>ps ss. email = ps @ ''authority'' @ ss)) \<and>
         (role_of v = Some (JStr ''tourist'') \<longleftrightarrow> \<not> (\<exists>ps ss. email = ps @ ''authority'' @ ss))"
    by (simp add: sublist_def)
  moreover have "authAPI_login e email password w = (Inr v, w')"
    unfolding authAPI_login_def v_def by (rule run)
  ultimately show "\<exists>v w'. authAPI_login e email password w = (Inr v, w') \<and>
         (role_of v = Some (JStr ''authority'') \<longleftrightarrow> (\<exists>ps ss. email = ps @ ''authority'' @ ss)) \<and>
         (role_of v = Some (JStr ''tourist'') \<longleftrightarrow> \<not> (\<exists>ps ss. email = ps @ ''authority'' @ ss))"
    by blast
next
  assume "live_fails e1 w1 (Login ''authority.bob@example.com'' p1)"
  then obtain w' where run: "invoke e1 (Login ''authority.bob@example.com'' p1) w1
      = (Inr (catch_block e1 (Login ''authority.bob@example.com'' p1)), w')"
    by (blast dest: invoke_failed)
  define v where "v = catch_block e1 (Login ''authority.bob@example.com'' p1)"
  have "role_of v = Some (JStr ''authority'')"
    unfolding v_def by (simp add: role_of_def get_prop_object)
  moreover have "authAPI_login e1 ''authority.bob@example.com'' p1 w1 = (Inr v, w')"
    unfolding authAPI_login_def v_def by (rule run)
  ultimately show "\<exists>v w'. authAPI_login e1 ''authority.bob@example.com'' p1 w1 = (Inr v, w') \<and>
         role_of v = Some (JStr ''authority'')"
    by blast
next
  assume "live_fails e2 w2 (Login ''bob@example.com'' p2)"
  then obtain w' where run: "invoke e2 (Login ''bob@example.com'' p2) w2
      = (Inr (catch_block e2 (Login ''bob@example.com'' p2)), w')"
    by (blast dest: invoke_failed)
  define v where "v = catch_block e2 (Login ''bob@example.com'' p2)"
  have "role_of v = Some (JStr ''tourist'')"
    unfolding v_def by (simp add: role_of_def get_prop_object)
  moreover have "authAPI_login e2 ''bob@example.com'' p2 w2 = (Inr v, w')"
    unfolding authAPI_login_def v_def by (rule run)
  ultimately show "\<exists>v w'. authAPI_login e2 ''bob@example.com'' p2 w2 = (Inr v, w') \<and>
         role_of v = Some (JStr ''tourist'')"
    by blast
qed

theorem login_fallback_role_witness:
  "live_fails unreachable signed_out (Login ''officer@authority.gov'' ''pw'') \<and>
   (\<exists>v w'. authAPI_login unreachable ''officer@authority.gov'' ''pw'' signed_out = (Inr v, w') \<and>
      role_of v = Some (JStr ''authority'')) \<and>
   live_fails unreachable signed_out (Login ''authority.bob@example.com'' ''pw'') \<and>
   (\<exists>v w'. authAPI_login unreachable ''authority.bob@example.com'' ''pw'' signed_out = (Inr v, w') \<and>
      role_of v = Some (JStr ''authority'')) \<and>
   live_fails rejecting signed_in (Login ''bob@example.com'' ''pw'') \<and>
   (\<exists>v w'. authAPI_login rejecting ''bob@example.com'' ''pw'' signed_in = (Inr v, w') \<and>
      role_of v = Some (JStr ''tourist''))"
proof -
  have occ: "''officer@authority.gov'' = ''officer@'' @ ''authority'' @ ''.gov''"
    by simp
  have ex: "\<exists>ps ss. ''officer@authority.gov'' = ps @ ''authority'' @ ss"
    using occ by blast
  note t = login_fallback_role
    [of unreachable signed_out "''officer@authority.gov''" "''pw''"
        unreachable signed_out "''pw''" rejecting signed_in "''pw''"]
  have f1: "live_fails unreachable signed_out (Login ''officer@authority.gov'' ''pw'')"
    by (rule unreachable_fails)
  have f2: "live_fails unreachable signed_out (Login ''authority.bob@example.com'' ''pw'')"
    by (rule unreachable_fails)
  have f3: "live_fails rejecting signed_in (Login ''bob@example.com'' ''pw'')"
    by (rule rejecting_fails)
  show ?thesis
    using t ex f1 f2 f3 by blast
qed

text \<open>
  C6, as stated, fails: registering with an email that contains \<^verbatim>\<open>authority\<close> (and even
  with a \<^verbatim>\<open>role\<close> of \<^verbatim>\<open>authority\<close> in the supplied data) yields the role \<^verbatim>\<open>tourist\<close>.
\<close>

theorem register_ignores_email:
  "String_includes ''authority.bob@example.com'' ''authority'' \<and>
   get_prop authority_bob ''email'' = Some (JStr ''authority.bob@example.com'') \<and>
   live_fails unreachable signed_out (Register authority_bob) \<and>
   map_sum id role_of (fst (authAPI_register unreachable authority_bob signed_out))
     = Inr (Some (JStr ''tourist''))"
  by (simp add: authority_bob_def live_fails_def failed_def wire_def unreachable_def
      authAPI_register_def invoke_def send_def settle_def response_rejected_def
      try_catch_def return_data_def role_of_def get_prop_object)

text \<open>
  C6, amended. When the live registration call fails, the role of the synthesized user is
  always the default role \<^verbatim>\<open>tourist\<close>, whatever the supplied data contains: the literal
  \<^verbatim>\<open>role: 'tourist'\<close> follows the spread of the supplied data and replaces any role in it.
\<close>

theorem register_fallback_role:
  assumes "live_fails e w (Register userData)"
  shows "\<exists>v w'. authAPI_register e userData w = (Inr v, w') \<and> role_of v = Some (JStr ''tourist'')"
proof -
  from assms obtain w' where
    "authAPI_register e userData w = (Inr (catch_block e (Register userData)), w')"
    unfolding authAPI_register_def by (blast dest: invoke_failed)
  moreover have "role_of (catch_block e (Register userData)) = Some (JStr ''tourist'')"
    by (simp add: role_of_def get_prop_object)
  ultimately show ?thesis by blast
qed

theorem register_fallback_role_witness:
  "live_fails unreachable signed_out (Register authority_bob) \<and>
   (\<exists>v w'. authAPI_register unreachable authority_bob signed_out = (Inr v, w') \<and>
      role_of v = Some (JStr ''tourist''))"
  using register_fallback_role [of unreachable signed_out authority_bob] unreachable_fails
  by simp

subsection \<open>Rounding to doubles\<close>

lemma round_half_even_ge: "of_int a \<le> y \<Longrightarrow> a \<le> round_half_even y"
  unfolding round_half_even_def Let_def by (auto simp: le_floor_iff) linarith+

lemma round_half_even_le: "y \<le> of_int c \<Longrightarrow> round_half_even y \<le> c"
  unfolding round_half_even_def Let_def by (auto; linarith)

lemma round_half_even_less: "y < of_int c - 1 / 2 \<Longrightarrow> round_half_even y < c"
  unfolding round_half_even_def Let_def by (auto; linarith)

lemma round_half_even_of_int: "round_half_even (of_int a) = a"
  unfolding round_half_even_def by simp

lemma binade_eq:
  assumes "2 powr real_of_int b \<le> \<bar>x\<bar>" and "\<bar>x\<bar> < 2 powr real_of_int (b + 1)" and "- 1022 \<le> b"
  shows "binade x = b"
proof -
  have pos: "0 < \<bar>x\<bar>" using assms(1) by (smt (verit) powr_gt_zero)
  have "real_of_int b \<le> log 2 \<bar>x\<bar>" using assms(1) pos by (simp add: le_log_iff)
  moreover have "log 2 \<bar>x\<bar> < real_of_int (b + 1)" using assms(2) pos by (simp add: log_less_iff)
  ultimately have "\<lfloor>log 2 \<bar>x\<bar>\<rfloor> = b" by linarith
  then show ?thesis using assms(3) by (simp add: binade_def)
qed

lemma binade_le:
  assumes "0 < x" and "x < 8"
  shows "binade x \<le> 2"
proof -
  have "log 2 \<bar>x\<bar> < 3" using assms by (simp add: log_less_iff)
  then have "\<lfloor>log 2 \<bar>x\<bar>\<rfloor> \<le> 2" by linarith
  then show ?thesis by (simp add: binade_def)
qed

lemma ulp_grid:
  assumes "binade x \<le> 2"
  shows "ulp x * 2 ^ nat (52 - binade x) = 1" and "50 \<le> nat (52 - binade x)"
proof -
  let ?n = "nat (52 - binade x)"
  define a where "a = real_of_int (binade x - 52)"
  have n: "real ?n = - a" using assms by (simp add: a_def)
  have "2 ^ ?n = 2 powr real ?n" by (simp add: powr_realpow)
  then have "ulp x * 2 ^ ?n = 2 powr a * 2 powr (- a)"
    by (simp only: n ulp_def a_def)
  also have "\<dots> = 2 powr (a + (- a))" by (simp only: powr_add)
  also have "\<dots> = 1" by simp
  finally show "ulp x * 2 ^ ?n = 1" .
  show "50 \<le> ?n" using assms by simp
qed

lemma to_double_floor:
  assumes "0 \<le> p" and "p < 8"
  shows "of_int \<lfloor>p\<rfloor> \<le> to_double p"
    and "to_double p \<le> of_int \<lfloor>p\<rfloor> + 1"
    and "p < of_int \<lfloor>p\<rfloor> + 1 - 1 / 2 ^ 51 \<Longrightarrow> to_double p < of_int \<lfloor>p\<rfloor> + 1"
proof -
  define k where "k = \<lfloor>p\<rfloor>"
  have k: "of_int k \<le> p" "p < of_int k + 1" unfolding k_def by linarith+
  have goal: "of_int k \<le> to_double p \<and> to_double p \<le> of_int k + 1 \<and>
      (p < of_int k + 1 - 1 / 2 ^ 51 \<longrightarrow> to_double p < of_int k + 1)"
  proof (cases "p = 0")
    case True
    then show ?thesis by (simp add: to_double_def k_def)
  next
    case False
    with assms have pos: "0 < p" by simp
    define n where "n = nat (52 - binade p)"
    have b: "binade p \<le> 2" using pos assms(2) by (rule binade_le)
    have u: "ulp p * 2 ^ n = 1" and n50: "50 \<le> n"
      unfolding n_def using ulp_grid [OF b] by simp_all
    have upos: "0 < ulp p" by (simp add: ulp_def)
    have inv: "ulp p = 1 / 2 ^ n" using u by (simp add: field_simps)
    define y where "y = p / ulp p"
    have y: "y = p * 2 ^ n" unfolding y_def inv by simp
    define m where "m = round_half_even y"
    have td: "to_double p = of_int m / 2 ^ n"
      using False unfolding to_double_def m_def y_def inv by simp
    have "of_int (k * 2 ^ n) \<le> y" using k(1) by (simp add: y)
    then have lo: "k * 2 ^ n \<le> m" unfolding m_def by (rule round_half_even_ge)
    have "y \<le> of_int ((k + 1) * 2 ^ n)" using k(2) by (simp add: y)
    then have hi: "m \<le> (k + 1) * 2 ^ n" unfolding m_def by (rule round_half_even_le)
    have p2: "(0::real) < 2 ^ n" by simp
    have c1: "of_int k \<le> to_double p"
    proof -
      have "real_of_int (k * 2 ^ n) \<le> real_of_int m" using lo by linarith
      then have "of_int k * 2 ^ n \<le> real_of_int m" by simp
      then show ?thesis unfolding td using p2 by (simp add: field_simps)
    qed
    have c2: "to_double p \<le> of_int k + 1"
    proof -
      have "real_of_int m \<le> real_of_int ((k + 1) * 2 ^ n)" using hi by linarith
      then have "real_of_int m \<le> (of_int k + 1) * 2 ^ n" by simp
      then show ?thesis unfolding td using p2 by (simp add: field_simps)
    qed
    have c3: "to_double p < of_int k + 1" if lt: "p < of_int k + 1 - 1 / 2 ^ 51"
    proof -
      have "(2::real) ^ 50 \<le> 2 ^ n" by (rule power_increasing) (use n50 in simp_all)
      then have "(2::real) ^ 50 / 2 ^ 51 \<le> 2 ^ n / 2 ^ 51" by (rule divide_right_mono) simp
      then have half: "(1::real) / 2 \<le> 2 ^ n / 2 ^ 51" by simp
      have "y < (of_int k + 1 - 1 / 2 ^ 51) * 2 ^ n" unfolding y using lt p2 by simp
      also have "\<dots> = (of_int k + 1) * 2 ^ n - 2 ^ n / 2 ^ 51" by (simp add: algebra_simps)
      also have "\<dots> \<le> (of_int k + 1) * 2 ^ n - 1 / 2" using half by linarith
      finally have "y < of_int ((k + 1) * 2 ^ n) - 1 / 2" by simp
      then have "m < (k + 1) * 2 ^ n" unfolding m_def by (rule round_half_even_less)
      then have "real_of_int m < real_of_int ((k + 1) * 2 ^ n)" by linarith
      then have "real_of_int m < (of_int k + 1) * 2 ^ n" by simp
      then show ?thesis unfolding td using p2 by (simp add: field_simps)
    qed
    from c1 c2 c3 show ?thesis by blast
  qed
  from goal show "of_int \<lfloor>p\<rfloor> \<le> to_double p"
    and "to_double p \<le> of_int \<lfloor>p\<rfloor> + 1"
    and "p < of_int \<lfloor>p\<rfloor> + 1 - 1 / 2 ^ 51 \<Longrightarrow> to_double p < of_int \<lfloor>p\<rfloor> + 1"
    unfolding k_def by blast+
qed


lemma two_powr_neg: "2 powr (- real n) = 1 / 2 ^ n"
  by (simp add: powr_minus powr_realpow divide_inverse)

lemma ulp_in_binade: "binade x = b \<Longrightarrow> b \<le> 52 \<Longrightarrow> ulp x = 1 / 2 ^ nat (52 - b)"
  using two_powr_neg [of "nat (52 - b)"] by (simp add: ulp_def)

lemma double_below_one:
  assumes "is_double r" and "0 \<le> r" and "r < 1"
  shows "r \<le> 1 - 1 / 2 ^ 53"
proof (cases "r < 1 / 2")
  case True
  then show ?thesis by simp
next
  case False
  then have half: "1 / 2 \<le> r" by simp
  have "binade r = - 1"
  proof (rule binade_eq)
    show "2 powr real_of_int (- 1) \<le> \<bar>r\<bar>" using half by (simp add: powr_minus)
    show "\<bar>r\<bar> < 2 powr real_of_int (- 1 + 1)" using assms(2,3) by simp
    show "- 1022 \<le> (- 1::int)" by simp
  qed
  then have u: "ulp r = 1 / 2 ^ 53" using ulp_in_binade [of r "- 1"] by simp
  define m where "m = round_half_even (r / ulp r)"
  have "r = to_double r" using assms(1) by (simp add: is_double_def)
  also have "\<dots> = of_int m / 2 ^ 53" using half unfolding to_double_def m_def u by simp
  finally have r: "r = of_int m / 2 ^ 53" .
  with assms(3) have "real_of_int m < real_of_int (2 ^ 53)" by (simp add: field_simps)
  then have "m < 2 ^ 53" by (simp only: of_int_less_iff)
  then have "m \<le> 2 ^ 53 - 1" by simp
  then have "real_of_int m \<le> real_of_int (2 ^ 53 - 1)" by (simp only: of_int_le_iff)
  then show ?thesis unfolding r by (simp add: field_simps)
qed

lemma index_range:
  assumes "0 \<le> r" and "r \<le> 1 - 1 / 2 ^ 53"
  shows "\<lfloor>r * 5\<rfloor> \<le> \<lfloor>to_double (r * 5)\<rfloor>"
    and "\<lfloor>to_double (r * 5)\<rfloor> \<le> \<lfloor>r * 5\<rfloor> + 1"
    and "r * 5 < of_int \<lfloor>r * 5\<rfloor> + 1 - 1 / 2 ^ 51 \<Longrightarrow> \<lfloor>to_double (r * 5)\<rfloor> = \<lfloor>r * 5\<rfloor>"
    and "0 \<le> \<lfloor>to_double (r * 5)\<rfloor>" and "\<lfloor>to_double (r * 5)\<rfloor> \<le> 4"
proof -
  define p where "p = r * 5"
  have p0: "0 \<le> p" and p8: "p < 8" and p5: "p \<le> 5 - 5 / 2 ^ 53"
    unfolding p_def using assms by simp_all
  note f = to_double_floor [OF p0 p8]
  show 1: "\<lfloor>r * 5\<rfloor> \<le> \<lfloor>to_double (r * 5)\<rfloor>"
    using f(1) unfolding p_def by (simp add: le_floor_iff)
  show 2: "\<lfloor>to_double (r * 5)\<rfloor> \<le> \<lfloor>r * 5\<rfloor> + 1"
    using f(2) unfolding p_def by (simp add: floor_le_iff)
  have 3: "\<lfloor>to_double p\<rfloor> = \<lfloor>p\<rfloor>" if "p < of_int \<lfloor>p\<rfloor> + 1 - 1 / 2 ^ 51"
    using f(1) f(3) [OF that] by (simp add: floor_eq_iff)
  then show "r * 5 < of_int \<lfloor>r * 5\<rfloor> + 1 - 1 / 2 ^ 51 \<Longrightarrow> \<lfloor>to_double (r * 5)\<rfloor> = \<lfloor>r * 5\<rfloor>"
    unfolding p_def .
  have "0 \<le> \<lfloor>p\<rfloor>" using p0 by simp
  then show "0 \<le> \<lfloor>to_double (r * 5)\<rfloor>" using 1 unfolding p_def by linarith
  have "p < 5" using p5 by simp
  then have "\<lfloor>p\<rfloor> < 5" by (simp add: floor_less_iff)
  then have fl4: "\<lfloor>p\<rfloor> = 4 \<or> \<lfloor>p\<rfloor> \<le> 3" by linarith
  show "\<lfloor>to_double (r * 5)\<rfloor> \<le> 4"
  proof (cases "\<lfloor>p\<rfloor> = 4")
    case True
    have "p < of_int \<lfloor>p\<rfloor> + 1 - 1 / 2 ^ 51" unfolding True using p5 by simp
    from 3 [OF this] True show ?thesis unfolding p_def by simp
  next
    case False
    with fl4 have "\<lfloor>p\<rfloor> \<le> 3" by blast
    with 2 show ?thesis unfolding p_def by linarith
  qed
qed

lemma is_double_half: "is_double (1 / 2)"
proof -
  define x :: real where "x = 1 / 2"
  have b: "binade x = - 1"
    by (rule binade_eq) (simp_all add: powr_minus x_def)
  have u: "ulp x = 1 / 2 ^ 53" using ulp_in_binade [OF b] by simp
  have "x / ulp x = x * 2 ^ 53" unfolding u by simp
  also have "\<dots> = real_of_int (2 ^ 52)" by (simp add: x_def)
  finally have "x / ulp x = real_of_int (2 ^ 52)" .
  then have "round_half_even (x / ulp x) = 2 ^ 52"
    by (simp only: round_half_even_of_int)
  then have "to_double x = x" unfolding to_double_def u by (simp add: x_def)
  then show ?thesis unfolding is_double_def x_def .
qed

lemma product_rounds_up:
  "to_double (5404319552844595 / 2 ^ 53 * 5) = 3"
proof -
  define p :: real where "p = 5404319552844595 / 2 ^ 53 * 5"
  have b: "binade p = 1"
    by (rule binade_eq) (simp_all add: p_def)
  have u: "ulp p = 1 / 2 ^ 51" using ulp_in_binade [OF b] by simp
  have "p / ulp p = p * 2 ^ 51" unfolding u by simp
  also have "\<dots> = 27021597764222975 / 4" by (simp add: p_def)
  finally have y: "p / ulp p = 27021597764222975 / 4" .
  have fl: "\<lfloor>27021597764222975 / 4 :: real\<rfloor> = 6755399441055743" by (simp add: floor_eq_iff)
  have "round_half_even (27021597764222975 / 4) = 6755399441055744"
    unfolding round_half_even_def Let_def fl by simp
  then have "to_double p = 3" unfolding to_double_def y u by (simp add: p_def)
  then show ?thesis unfolding p_def .
qed

text \<open>Every multiple of \<open>2^-53\<close> below 1 is a double.\<close>

lemma grid_is_double:
  assumes "m < 2 ^ 53"
  shows "is_double (real m / 2 ^ 53)"
proof (cases "m = 0")
  case True
  then show ?thesis by (simp add: is_double_def to_double_def)
next
  case False
  define x where "x = real m / 2 ^ 53"
  have m1: "1 \<le> real m" using False by simp
  have pos: "0 < x" unfolding x_def using m1 by simp
  from assms have "real m < real (2 ^ 53)" by (simp only: of_nat_less_iff)
  then have lt1: "x < 1" unfolding x_def by simp
  have ge: "1 / 2 ^ 53 \<le> x" unfolding x_def using m1 by (simp add: divide_right_mono)
  define b where "b = \<lfloor>log 2 x\<rfloor>"
  have "log 2 x < 0" using pos lt1 by simp
  then have b_hi: "b \<le> - 1" unfolding b_def by linarith
  have "2 powr (- 53) \<le> x" using ge two_powr_neg [of 53] by simp
  then have "- 53 \<le> log 2 x" using pos by (simp add: le_log_iff)
  then have b_lo: "- 53 \<le> b" unfolding b_def by linarith
  have "\<bar>x\<bar> = x" using pos by simp
  then have "binade x = max (- 1022) b" unfolding binade_def b_def by simp
  then have bin: "binade x = b" using b_lo by simp
  define n where "n = nat (52 - b)"
  have n53: "53 \<le> n" unfolding n_def using b_hi by simp
  have u: "ulp x = 1 / 2 ^ n" unfolding n_def using ulp_in_binade [OF bin] b_hi by simp
  have "(2::real) ^ (n - 53 + 53) = 2 ^ (n - 53) * 2 ^ 53" by (rule power_add)
  moreover have "n - 53 + 53 = n" using n53 by simp
  ultimately have split: "(2::real) ^ n = 2 ^ (n - 53) * 2 ^ 53" by (simp only:)
  have "x / ulp x = x * 2 ^ n" unfolding u by simp
  also have "\<dots> = real m * 2 ^ (n - 53)" unfolding x_def split by simp
  also have "\<dots> = real_of_int (int m * 2 ^ (n - 53))" by simp
  finally have "round_half_even (x / ulp x) = int m * 2 ^ (n - 53)"
    by (simp only: round_half_even_of_int)
  then have "to_double x = real_of_int (int m * 2 ^ (n - 53)) * (1 / 2 ^ n)"
    unfolding to_double_def u using pos by simp
  also have "\<dots> = real m * 2 ^ (n - 53) / (2 ^ (n - 53) * 2 ^ 53)"
    unfolding split by simp
  also have "\<dots> = x" unfolding x_def by simp
  finally show ?thesis unfolding is_double_def x_def .
qed

subsection \<open>Synthesized collections, scores and acknowledgements\<close>

lemma history_locations:
  "locations_of (catch_block e GetLocationHistory) =
     [object [(''lat'', JNum 26.1445), (''lng'', JNum 91.7362),
              (''timestamp'', JNum (of_int (clock e 0) - 3600000))],
      object [(''lat'', JNum 26.1465), (''lng'', JNum 91.7382),
              (''timestamp'', JNum (of_int (clock e 1) - 1800000))],
      object [(''lat'', JNum 26.1485), (''lng'', JNum 91.7402),
              (''timestamp'', JNum (of_int (clock e 2)))]]"
  by (simp add: locations_of_def get_prop_object)

lemma timestamp_of_entry:
  "timestamp_of (object [(''lat'', x), (''lng'', y), (''timestamp'', JNum t)]) = Some t"
  by (simp add: timestamp_of_def get_prop_object)

lemma history_timestamps:
  "map timestamp_of (locations_of (catch_block e GetLocationHistory)) =
     [Some (of_int (clock e 0) - 3600000), Some (of_int (clock e 1) - 1800000),
      Some (of_int (clock e 2))]"
  by (simp only: history_locations timestamp_of_entry list.map)

text \<open>
  C7, as stated, fails: the three timestamps come from three separate readings of
  \<^verbatim>\<open>Date.now()\<close>, a wall clock that may be set back. With readings 10000000, 8000000 and
  6000000 the live call fails, the fallback is returned, and its timestamps 6400000,
  6200000, 6000000 are decreasing.
\<close>

theorem backwards_clock_unordered:
  "live_fails backwards signed_out GetLocationHistory \<and>
   fst (locationAPI_getLocationHistory backwards signed_out)
     = Inr (catch_block backwards GetLocationHistory) \<and>
   map timestamp_of (locations_of (catch_block backwards GetLocationHistory))
     = [Some 6400000, Some 6200000, Some 6000000] \<and>
   \<not> (6400000 < (6200000::real))"
proof -
  have f: "live_fails backwards signed_out GetLocationHistory"
    by (simp add: live_fails_def failed_def wire_def backwards_def)
  from invoke_failed [OF f]
  have run: "fst (locationAPI_getLocationHistory backwards signed_out)
      = Inr (catch_block backwards GetLocationHistory)"
    by (auto simp: locationAPI_getLocationHistory_def)
  have ts: "map timestamp_of (locations_of (catch_block backwards GetLocationHistory))
      = [Some 6400000, Some 6200000, Some 6000000]"
    unfolding history_timestamps by (simp add: backwards_def)
  from f run ts show ?thesis by simp
qed

text \<open>
  C7, amended. When the live location-history call fails, the returned collection has
  exactly three entries, each with a timestamp; provided the clock does not run backwards
  between the three successive readings of \<^verbatim>\<open>Date.now()\<close> nor between the last of them and
  the current time \<open>now\<close>, the timestamps are strictly increasing and the largest is at or
  before the current time.
\<close>

theorem location_history_fallback:
  assumes "live_fails e w GetLocationHistory"
  shows "\<exists>v w' a b c ta tb tc.
           locationAPI_getLocationHistory e w = (Inr v, w') \<and>
           locations_of v = [a, b, c] \<and>
           timestamp_of a = Some ta \<and> timestamp_of b = Some tb \<and> timestamp_of c = Some tc \<and>
           (clock e 0 \<le> clock e 1 \<and> clock e 1 \<le> clock e 2 \<and> clock e 2 \<le> now \<longrightarrow>
              ta < tb \<and> tb < tc \<and> tc \<le> real_of_int now)"
proof -
  from assms obtain w' where
    run: "locationAPI_getLocationHistory e w = (Inr (catch_block e GetLocationHistory), w')"
    unfolding locationAPI_getLocationHistory_def by (blast dest: invoke_failed)
  let ?ta = "real_of_int (clock e 0) - 3600000"
  let ?tb = "real_of_int (clock e 1) - 1800000"
  let ?tc = "real_of_int (clock e 2)"
  have "clock e 0 \<le> clock e 1 \<and> clock e 1 \<le> clock e 2 \<and> clock e 2 \<le> now \<longrightarrow>
      ?ta < ?tb \<and> ?tb < ?tc \<and> ?tc \<le> real_of_int now"
    by simp
  then show ?thesis
    using run history_locations [of e] timestamp_of_entry by blast
qed

theorem location_history_fallback_witness:
  "live_fails unreachable signed_out GetLocationHistory \<and>
   clock unreachable 0 \<le> clock unreachable 1 \<and> clock unreachable 1 \<le> clock unreachable 2 \<and>
   clock unreachable 2 \<le> 1700000000002 \<and>
   (\<exists>v w' a b c ta tb tc.
      locationAPI_getLocationHistory unreachable signed_out = (Inr v, w') \<and>
      locations_of v = [a, b, c] \<and>
      timestamp_of a = Some ta \<and> timestamp_of b = Some tb \<and> timestamp_of c = Some tc \<and>
      ta < tb \<and> tb < tc \<and> tc \<le> real_of_int 1700000000002)"
proof -
  have f: "live_fails unreachable signed_out GetLocationHistory"
    by (rule unreachable_fails)
  have c1: "clock unreachable 0 \<le> clock unreachable 1" by (simp add: unreachable_def)
  have c2: "clock unreachable 1 \<le> clock unreachable 2" by (simp add: unreachable_def)
  have c3: "clock unreachable 2 \<le> 1700000000002" by (simp add: unreachable_def)
  show ?thesis
    using location_history_fallback [OF f, of 1700000000002] f c1 c2 c3 by blast
qed

lemma score_prop:
  "get_prop (catch_block e GetSafetyScore) ''safetyScore'' = Some (pick_score (random e))"
  by (simp add: get_prop_object)

text \<open>Where the rounded product of a double below 1 with 5 falls: the index lies from 0
  to 4, and it can differ from the index of the exact product only within \<open>2^-51\<close> below
  an integer.\<close>

lemma index_bounds:
  assumes "0 \<le> r" and "r \<le> 1 - 1 / 2 ^ 53"
  shows "0 \<le> \<lfloor>Number_multiply r 5\<rfloor>"
    and "\<lfloor>Number_multiply r 5\<rfloor> \<le> 4"
    and "r * 5 < of_int \<lfloor>Number_multiply r 5\<rfloor> + 1"
    and "of_int \<lfloor>Number_multiply r 5\<rfloor> - 1 / 2 ^ 51 \<le> r * 5"
    and "of_int j \<le> r * 5 \<Longrightarrow> r * 5 < of_int j + 1 - 1 / 2 ^ 51 \<Longrightarrow> \<lfloor>Number_multiply r 5\<rfloor> = j"
proof -
  define i where "i = \<lfloor>Number_multiply r 5\<rfloor>"
  define k where "k = \<lfloor>r * 5\<rfloor>"
  note ir = index_range [OF assms, folded Number_multiply_def, folded i_def k_def]
  have k: "of_int k \<le> r * 5" "r * 5 < of_int k + 1" unfolding k_def by linarith+
  show "0 \<le> \<lfloor>Number_multiply r 5\<rfloor>" using ir(4) by (simp add: i_def)
  show "\<lfloor>Number_multiply r 5\<rfloor> \<le> 4" using ir(5) by (simp add: i_def)
  have "r * 5 < of_int i + 1" using k(2) ir(1) by linarith
  then show "r * 5 < of_int \<lfloor>Number_multiply r 5\<rfloor> + 1" by (simp add: i_def)
  have "of_int i - 1 / 2 ^ 51 \<le> r * 5"
  proof (cases "r * 5 < of_int k + 1 - 1 / 2 ^ 51")
    case True
    from ir(3) [OF this] have "i = k" .
    with k(1) show ?thesis by simp
  next
    case False
    moreover have "real_of_int i \<le> of_int k + 1" using ir(2) by linarith
    ultimately show ?thesis by linarith
  qed
  then show "of_int \<lfloor>Number_multiply r 5\<rfloor> - 1 / 2 ^ 51 \<le> r * 5" by (simp add: i_def)
  show "\<lfloor>Number_multiply r 5\<rfloor> = j"
    if lo: "of_int j \<le> r * 5" and hi: "r * 5 < of_int j + 1 - 1 / 2 ^ 51"
  proof -
    have "r * 5 < of_int j + 1" using hi by (smt (verit) zero_less_power divide_pos_pos zero_less_one)
    with lo have "k = j" unfolding k_def by (simp add: floor_eq_iff)
    with hi have "r * 5 < of_int k + 1 - 1 / 2 ^ 51" by simp
    from ir(3) [OF this] \<open>k = j\<close> show ?thesis by (simp add: i_def)
  qed
qed

lemma pick_score_cases:
  assumes "0 \<le> r" and "r \<le> 1 - 1 / 2 ^ 53"
  shows "\<exists>s. pick_score r = JNum s \<and>
           (s = 75 \<or> s = 80 \<or> s = 85 \<or> s = 90 \<or> s = 95) \<and>
           (r < 1 / 5 - 1 / 2 ^ 53 \<longrightarrow> s = 75) \<and>
           (s = 75 \<longrightarrow> r < 1 / 5) \<and>
           (1 / 5 \<le> r \<and> r < 2 / 5 - 1 / 2 ^ 53 \<longrightarrow> s = 80) \<and>
           (s = 80 \<longrightarrow> 1 / 5 - 1 / 2 ^ 53 \<le> r \<and> r < 2 / 5) \<and>
           (2 / 5 \<le> r \<and> r < 3 / 5 - 1 / 2 ^ 53 \<longrightarrow> s = 85) \<and>
           (s = 85 \<longrightarrow> 2 / 5 - 1 / 2 ^ 53 \<le> r \<and> r < 3 / 5) \<and>
           (3 / 5 \<le> r \<and> r < 4 / 5 - 1 / 2 ^ 53 \<longrightarrow> s = 90) \<and>
           (s = 90 \<longrightarrow> 3 / 5 - 1 / 2 ^ 53 \<le> r \<and> r < 4 / 5) \<and>
           (4 / 5 \<le> r \<longrightarrow> s = 95) \<and>
           (s = 95 \<longrightarrow> 4 / 5 - 1 / 2 ^ 53 \<le> r)"
proof -
  define i where "i = \<lfloor>Number_multiply r 5\<rfloor>"
  note b = index_bounds [OF assms, folded i_def]
  have pick: "pick_score r = array_get scores i"
    by (simp add: pick_score_def i_def scores_def)
  have a0: "r < 1 / 5 - 1 / 2 ^ 53 \<longrightarrow> i = 0"
    using b(5) [of 0] assms(1) by simp
  have a1: "1 / 5 \<le> r \<and> r < 2 / 5 - 1 / 2 ^ 53 \<longrightarrow> i = 1"
    using b(5) [of 1] by simp
  have a2: "2 / 5 \<le> r \<and> r < 3 / 5 - 1 / 2 ^ 53 \<longrightarrow> i = 2"
    using b(5) [of 2] by simp
  have a3: "3 / 5 \<le> r \<and> r < 4 / 5 - 1 / 2 ^ 53 \<longrightarrow> i = 3"
    using b(5) [of 3] by simp
  have a4: "4 / 5 \<le> r \<longrightarrow> i = 4"
    using b(5) [of 4] assms(2) by simp
  have up: "r * 5 < of_int i + 1" and low: "of_int i - 1 / 2 ^ 51 \<le> r * 5"
    using b(3,4) by simp_all
  from b(1,2) consider "i = 0" | "i = 1" | "i = 2" | "i = 3" | "i = 4" by linarith
  then show ?thesis
  proof cases
    case 1
    with a0 a1 a2 a3 a4 up low show ?thesis by (simp add: pick array_get_def scores_def)
  next
    case 2
    with a0 a1 a2 a3 a4 up low show ?thesis by (simp add: pick array_get_def scores_def)
  next
    case 3
    with a0 a1 a2 a3 a4 up low show ?thesis by (simp add: pick array_get_def scores_def)
  next
    case 4
    with a0 a1 a2 a3 a4 up low show ?thesis by (simp add: pick array_get_def scores_def)
  next
    case 5
    with a0 a1 a2 a3 a4 up low show ?thesis by (simp add: pick array_get_def scores_def)
  qed
qed

text \<open>The double nearest to 0.6 lies below 3/5, yet its product with 5 rounds to 3, so
  that the fourth candidate is returned for it.\<close>

lemma pick_score_below_three_fifths:
  "5404319552844595 / 2 ^ 53 < (3 / 5 :: real) \<and> pick_score (5404319552844595 / 2 ^ 53) = JNum 90"
proof -
  have "\<lfloor>Number_multiply (5404319552844595 / 2 ^ 53) 5\<rfloor> = 3"
    unfolding Number_multiply_def product_rounds_up by simp
  then have "pick_score (5404319552844595 / 2 ^ 53) = JNum 90"
    unfolding pick_score_def by (simp add: scores_def array_get_def)
  then show ?thesis by simp
qed

lemma ways_total:
  "ways (JNum 75) + ways (JNum 80) + ways (JNum 85) + ways (JNum 90) + ways (JNum 95) = 2 ^ 53"
proof -
  define S where "S = {m::nat. m < 2 ^ 53}"
  define g where "g = (\<lambda>m::nat. pick_score (real m / 2 ^ 53))"
  define T where "T = {JNum 75, JNum 80, JNum 85, JNum 90, JNum 95}"
  have fin: "finite S" unfolding S_def by simp
  have finT: "finite T" unfolding T_def by simp
  have cardS: "card S = 2 ^ 53" unfolding S_def by simp
  have img: "g ` S \<subseteq> T"
  proof
    fix v assume "v \<in> g ` S"
    then obtain m where m: "m < 2 ^ 53" and v: "v = pick_score (real m / 2 ^ 53)"
      by (auto simp: S_def g_def)
    from m have "Suc m \<le> 2 ^ 53" by simp
    then have "real (Suc m) \<le> real (2 ^ 53)" by (simp only: of_nat_le_iff)
    then have r1: "real m / 2 ^ 53 \<le> 1 - 1 / 2 ^ 53" by (simp add: field_simps)
    have r0: "0 \<le> real m / 2 ^ 53" by simp
    from pick_score_cases [OF r0 r1] obtain s where
      "pick_score (real m / 2 ^ 53) = JNum s" "s = 75 \<or> s = 80 \<or> s = 85 \<or> s = 90 \<or> s = 95"
      by blast
    then show "v \<in> T" unfolding v T_def by auto
  qed
  have w: "card {x \<in> S. g x = y} = ways y" for y
    unfolding ways_def S_def g_def by simp
  have "(\<Sum>y\<in>T. \<Sum>x\<in>{x \<in> S. g x = y}. (1::nat)) = (\<Sum>x\<in>S. 1)"
    using fin finT img by (rule sum.group)
  then have "(\<Sum>y\<in>T. ways y) = 2 ^ 53" by (simp only: sum_constant mult_1_right w cardS of_nat_id)
  then show ?thesis unfolding T_def by simp
qed

text \<open>
  C8, as stated, fails in its second half: a generator that returns each of the \<open>2^53\<close>
  doubles \<open>m / 2^53\<close> with the same probability cannot select the five candidates with
  equal probability, because the five numbers of outcomes add up to \<open>2^53\<close>, which is not a
  multiple of 5.
\<close>

theorem scores_not_equally_likely:
  "\<not> (ways (JNum 75) = ways (JNum 80) \<and> ways (JNum 80) = ways (JNum 85) \<and>
      ways (JNum 85) = ways (JNum 90) \<and> ways (JNum 90) = ways (JNum 95))"
proof
  assume "ways (JNum 75) = ways (JNum 80) \<and> ways (JNum 80) = ways (JNum 85) \<and>
      ways (JNum 85) = ways (JNum 90) \<and> ways (JNum 90) = ways (JNum 95)"
  with ways_total have "5 * ways (JNum 95) = 2 ^ 53" by simp
  then have "5 * ways (JNum 95) = 9007199254740992" by simp
  then show False by presburger
qed

text \<open>
  C8, amended. When the live safety-score call fails, then for every outcome \<open>r\<close> of
  \<^verbatim>\<open>Math.random()\<close> (a double with \<open>0 \<le> r < 1\<close>) the returned score is one of 75, 80, 85,
  90, 95. The candidate with index \<open>k\<close> is returned for every \<open>r\<close> from \<open>k/5\<close> up to
  \<open>(k+1)/5 - 2^-53\<close>, and only for \<open>r\<close> from \<open>k/5 - 2^-53\<close> up to \<open>(k+1)/5\<close>: the five ranges
  are the fifths of the unit interval up to the rounding of the product at their
  boundaries, so the candidates are selected with approximately, not exactly, equal
  probability.
\<close>

theorem safety_score_fallback:
  assumes "live_fails e w GetSafetyScore"
    and "is_double (random e)" and "0 \<le> random e" and "random e < 1"
  shows "\<exists>v w' s.
           aiAPI_getSafetyScore e w = (Inr v, w') \<and>
           get_prop v ''safetyScore'' = Some (JNum s) \<and>
           (s = 75 \<or> s = 80 \<or> s = 85 \<or> s = 90 \<or> s = 95) \<and>
           (random e < 1 / 5 - 1 / 2 ^ 53 \<longrightarrow> s = 75) \<and>
           (s = 75 \<longrightarrow> random e < 1 / 5) \<and>
           (1 / 5 \<le> random e \<and> random e < 2 / 5 - 1 / 2 ^ 53 \<longrightarrow> s = 80) \<and>
           (s = 80 \<longrightarrow> 1 / 5 - 1 / 2 ^ 53 \<le> random e \<and> random e < 2 / 5) \<and>
           (2 / 5 \<le> random e \<and> random e < 3 / 5 - 1 / 2 ^ 53 \<longrightarrow> s = 85) \<and>
           (s = 85 \<longrightarrow> 2 / 5 - 1 / 2 ^ 53 \<le> random e \<and> random e < 3 / 5) \<and>
           (3 / 5 \<le> random e \<and> random e < 4 / 5 - 1 / 2 ^ 53 \<longrightarrow> s = 90) \<and>
           (s = 90 \<longrightarrow> 3 / 5 - 1 / 2 ^ 53 \<le> random e \<and> random e < 4 / 5) \<and>
           (4 / 5 \<le> random e \<longrightarrow> s = 95) \<and>
           (s = 95 \<longrightarrow> 4 / 5 - 1 / 2 ^ 53 \<le> random e)"
proof -
  from assms(1) obtain w' where
    run: "aiAPI_getSafetyScore e w = (Inr (catch_block e GetSafetyScore), w')"
    unfolding aiAPI_getSafetyScore_def by (blast dest: invoke_failed)
  have top: "random e \<le> 1 - 1 / 2 ^ 53"
    using assms(2-4) by (rule double_below_one)
  from pick_score_cases [OF assms(3) top] obtain s where
    s: "pick_score (random e) = JNum s"
    and rest: "(s = 75 \<or> s = 80 \<or> s = 85 \<or> s = 90 \<or> s = 95) \<and>
           (random e < 1 / 5 - 1 / 2 ^ 53 \<longrightarrow> s = 75) \<and>
           (s = 75 \<longrightarrow> random e < 1 / 5) \<and>
           (1 / 5 \<le> random e \<and> random e < 2 / 5 - 1 / 2 ^ 53 \<longrightarrow> s = 80) \<and>
           (s = 80 \<longrightarrow> 1 / 5 - 1 / 2 ^ 53 \<le> random e \<and> random e < 2 / 5) \<and>
           (2 / 5 \<le> random e \<and> random e < 3 / 5 - 1 / 2 ^ 53 \<longrightarrow> s = 85) \<and>
           (s = 85 \<longrightarrow> 2 / 5 - 1 / 2 ^ 53 \<le> random e \<and> random e < 3 / 5) \<and>
           (3 / 5 \<le> random e \<and> random e < 4 / 5 - 1 / 2 ^ 53 \<longrightarrow> s = 90) \<and>
           (s = 90 \<longrightarrow> 3 / 5 - 1 / 2 ^ 53 \<le> random e \<and> random e < 4 / 5) \<and>
           (4 / 5 \<le> random e \<longrightarrow> s = 95) \<and>
           (s = 95 \<longrightarrow> 4 / 5 - 1 / 2 ^ 53 \<le> random e)"
    by blast
  have "get_prop (catch_block e GetSafetyScore) ''safetyScore'' = Some (JNum s)"
    unfolding score_prop s ..
  with run rest show ?thesis by blast
qed

theorem safety_score_fallback_witness:
  "live_fails unreachable signed_out GetSafetyScore \<and>
   is_double (random unreachable) \<and> 0 \<le> random unreachable \<and> random unreachable < 1 \<and>
   (\<exists>v w'. aiAPI_getSafetyScore unreachable signed_out = (Inr v, w') \<and>
      get_prop v ''safetyScore'' = Some (JNum 85))"
proof -
  have f: "live_fails unreachable signed_out GetSafetyScore"
    by (rule unreachable_fails)
  have r: "random unreachable = 1 / 2" by (simp add: unreachable_def)
  have d: "is_double (random unreachable)" unfolding r by (rule is_double_half)
  have r0: "0 \<le> random unreachable" and r1: "random unreachable < 1"
    by (simp_all add: r)
  have mid: "2 / 5 \<le> random unreachable \<and> random unreachable < 3 / 5 - 1 / 2 ^ 53"
    by (simp add: r)
  from safety_score_fallback [OF f d r0 r1] obtain v w' s where
    run: "aiAPI_getSafetyScore unreachable signed_out = (Inr v, w')"
    and p: "get_prop v ''safetyScore'' = Some (JNum s)"
    and s: "2 / 5 \<le> random unreachable \<and> random unreachable < 3 / 5 - 1 / 2 ^ 53 \<longrightarrow> s = 85"
    by blast
  from s mid have "s = 85" by blast
  with run p f d r0 r1 show ?thesis by blast
qed

text \<open>
  C9. When the live call fails, verifying a one-time code returns \<^verbatim>\<open>{success: true}\<close>
  for every email and every code.
\<close>

theorem verifyOTP_fallback_accepts_any_code:
  assumes "live_fails e w (VerifyOTP email otp)"
  shows "\<exists>w'. authAPI_verifyOTP e email otp w = (Inr (JObj [(''success'', JBool True)]), w')"
  using invoke_failed [OF assms] by (simp add: authAPI_verifyOTP_def object_def)

theorem verifyOTP_fallback_accepts_any_code_witness:
  "live_fails rejecting signed_out (VerifyOTP ''bob@example.com'' ''000000'') \<and>
   (\<exists>w'. authAPI_verifyOTP rejecting ''bob@example.com'' ''000000'' signed_out
            = (Inr (JObj [(''success'', JBool True)]), w'))"
  using verifyOTP_fallback_accepts_any_code [of rejecting signed_out "''bob@example.com''" "''000000''"]
    rejecting_fails by blast

text \<open>
  C10. The fallback of the QR-code retrieval does not depend on the requested id: whenever
  the live calls for two ids fail (in any two environments and browser states), both
  results are the same fixed \<^verbatim>\<open>{qrCode}\<close> value.
\<close>

theorem getQRCode_fallback_independent_of_id:
  assumes "live_fails e1 w1 (GetQRCode d1)" and "live_fails e2 w2 (GetQRCode d2)"
  shows "fst (blockchainAPI_getQRCode e1 d1 w1) = fst (blockchainAPI_getQRCode e2 d2 w2) \<and>
         fst (blockchainAPI_getQRCode e1 d1 w1) = Inr (JObj [(''qrCode'', JStr mock_qrCode)])"
  using invoke_failed [OF assms(1)] invoke_failed [OF assms(2)]
  by (auto simp: blockchainAPI_getQRCode_def object_def)

theorem getQRCode_fallback_independent_of_id_witness:
  "live_fails unreachable signed_out (GetQRCode ''DTID-1'') \<and>
   live_fails rejecting signed_in (GetQRCode ''DTID-2'') \<and>
   fst (blockchainAPI_getQRCode unreachable ''DTID-1'' signed_out)
     = fst (blockchainAPI_getQRCode rejecting ''DTID-2'' signed_in)"
  using getQRCode_fallback_independent_of_id
    [of unreachable signed_out "''DTID-1''" rejecting signed_in "''DTID-2''"]
    unreachable_fails rejecting_fails by blast

end
